theory Spec2Isabelle
  imports Complex_Main "HOL-Library.Product_Lexorder"
begin

section \<open>The ECOSTRESS cloud-mask downloader (src/api.py)\<close>

text \<open>
  A shallow embedding of class \<open>EcostressCloudAPI\<close>. Python exceptions are values of
  \<open>error\<close>: a function that can raise returns \<open>error + 'a\<close> with \<open>Inl\<close> for the raise.
  A Python \<open>str\<close> is the list of its Unicode code points, a \<open>bytes\<close> object a list of
  8-bit characters; \<open>ascii\<close> turns a literal into the \<open>str\<close> of its code points.
\<close>

datatype error =
    TypeError
  | ValueError
  | OverflowError
  | AttributeError
  | IndexError
  | KeyError
  | TransportError
  | ParseError

type_synonym str = "nat list"

type_synonym bytes = string

definition ascii :: "string \<Rightarrow> str" where
  "ascii s = map of_char s"

subsection \<open>The library type \<open>datetime\<close>\<close>

text \<open>
  A naive \<open>datetime\<close> holds its seven fields; Python compares two of them as the tuples
  of these fields, lexicographically.
\<close>

record datetime =
  year :: nat
  month :: nat
  day :: nat
  hour :: nat
  minute :: nat
  second :: nat
  microsecond :: nat

definition dt_key :: "datetime \<Rightarrow> nat \<times> nat \<times> nat \<times> nat \<times> nat \<times> nat \<times> nat" where
  "dt_key d = (year d, month d, day d, hour d, minute d, second d, microsecond d)"

definition dt_le :: "datetime \<Rightarrow> datetime \<Rightarrow> bool" where
  "dt_le a b = (dt_key a \<le> dt_key b)"

definition is_leap :: "nat \<Rightarrow> bool" where
  "is_leap y = (y mod 4 = 0 \<and> (y mod 100 \<noteq> 0 \<or> y mod 400 = 0))"

text \<open>
  The library reads a table indexed by the month, after the leap-year test for February.
  Months outside 1..12 never reach it; the model gives them 31 days.
\<close>

definition days_in_month :: "nat \<Rightarrow> nat \<Rightarrow> nat" where
  "days_in_month y m =
     (if m = 2 \<and> is_leap y then 29
      else if m = 2 then 28
      else if m = 4 \<or> m = 6 \<or> m = 9 \<or> m = 11 then 30
      else 31)"

text \<open>
  The constructor \<open>datetime(year, month, day, hour, minute, second)\<close> checks every field
  and raises \<open>ValueError\<close> on one out of range. The arguments here come from \<open>int\<close> of
  digit strings, so they are never negative.
\<close>

definition valid_datetime :: "datetime \<Rightarrow> bool" where
  "valid_datetime d =
     (1 \<le> year d \<and> year d \<le> 9999 \<and> 1 \<le> month d \<and> month d \<le> 12 \<and>
      1 \<le> day d \<and> day d \<le> days_in_month (year d) (month d) \<and>
      hour d \<le> 23 \<and> minute d \<le> 59 \<and> second d \<le> 59 \<and> microsecond d \<le> 999999)"

definition mk_datetime :: "nat \<Rightarrow> nat \<Rightarrow> nat \<Rightarrow> nat \<Rightarrow> nat \<Rightarrow> nat \<Rightarrow> error + datetime" where
  "mk_datetime y m d h mi s =
     (let r = \<lparr>year = y, month = m, day = d, hour = h, minute = mi, second = s,
                microsecond = 0\<rparr>
      in if valid_datetime r then Inr r else Inl ValueError)"

text \<open>
  \<open>d + timedelta(days=1)\<close>: the same time of day on the next calendar day. The library
  raises \<open>OverflowError\<close> when the result would lie after 9999-12-31.
\<close>

definition add_day :: "datetime \<Rightarrow> error + datetime" where
  "add_day d =
     (if day d < days_in_month (year d) (month d) then Inr (d\<lparr>day := day d + 1\<rparr>)
      else if month d < 12 then Inr (d\<lparr>month := month d + 1, day := 1\<rparr>)
      else if year d < 9999 then Inr (d\<lparr>year := year d + 1, month := 1, day := 1\<rparr>)
      else Inl OverflowError)"

subsection \<open>The outside world\<close>

text \<open>
  The filesystem is a map from paths to file contents; every network request the program
  issues is appended to a log, so that "no request" is a statement about the log.
\<close>

datatype request = Get str | Open str

record world =
  files :: "str \<rightharpoonup> bytes"
  requests :: "request list"

text \<open>An XML element as \<open>ElementTree\<close> presents it: tag, text and children in order.\<close>

datatype xml = Element (tag: str) (text_of: "str option") (children: "xml list")

text \<open>
  What the program takes from its libraries, its platform and the remote archive, as
  parameters:
  \<^item> \<open>urljoin\<close> is \<open>urllib.parse.urljoin\<close>; its second argument may be \<open>None\<close>, and it
    raises \<open>ValueError\<close> on some references;
  \<^item> \<open>anchors url\<close> is the \<open>href\<close> of every anchor of the page \<open>requests.get(url)\<close>
    returns, in document order, \<open>None\<close> for an anchor without one;
  \<^item> \<open>urlopen url\<close> is the response to opening \<open>url\<close>: the results of its successive
    \<open>read()\<close> calls;
  \<^item> \<open>xml_dir\<close> is the class attribute \<open>_XML_DIR\<close>, which depends on where the module
    is installed;
  \<^item> \<open>fromstring\<close> is \<open>ET.fromstring\<close> and \<open>to_float\<close> is \<open>float\<close> on a string; the
    type \<open>'c\<close> stands for the floats;
  \<^item> \<open>wide_decimal\<close> is the table of the Unicode decimal digits outside ASCII with
    their values 0 to 9, which depends on the Unicode version of the interpreter;
  \<^item> \<open>year_text\<close> is what \<open>strftime('%Y')\<close> prints for a year below 1000, where the
    C library and the Python version decide whether the year is padded.
\<close>

record 'c env =
  urljoin :: "str \<Rightarrow> str option \<Rightarrow> error + str"
  anchors :: "str \<Rightarrow> error + str option list"
  urlopen :: "str \<Rightarrow> error + (nat \<Rightarrow> error + bytes)"
  xml_dir :: str
  fromstring :: "bytes \<Rightarrow> error + xml"
  to_float :: "str \<Rightarrow> error + 'c"
  wide_decimal :: "nat \<Rightarrow> nat option"
  year_text :: "nat \<Rightarrow> str"

definition BASE_CLOUD_URL :: str where
  "BASE_CLOUD_URL = ascii ''https://e4ftl01.cr.usgs.gov/ECOSTRESS/ECO2CLD.001/''"

subsection \<open>\<open>strftime\<close>\<close>

text \<open>
  \<open>strftime('%Y.%m.%d')\<close>: month and day on two digits, and the year on four digits
  from the year 1000 on; below that the platform decides.
\<close>

definition digit_char :: "nat \<Rightarrow> nat" where
  "digit_char n = 48 + n mod 10"

definition pad2 :: "nat \<Rightarrow> str" where
  "pad2 n = [digit_char (n div 10), digit_char n]"

definition pad4 :: "nat \<Rightarrow> str" where
  "pad4 n = [digit_char (n div 1000), digit_char (n div 100), digit_char (n div 10), digit_char n]"

definition strftime_Ymd :: "('c, 'z) env_scheme \<Rightarrow> datetime \<Rightarrow> str" where
  "strftime_Ymd env d =
     (if 1000 \<le> year d then pad4 (year d) else year_text env (year d)) @
     ascii ''.'' @ pad2 (month d) @ ascii ''.'' @ pad2 (day d)"

subsection \<open>\<open>_create_day_urls\<close>\<close>

text \<open>
  The \<open>while\<close> loop of \<open>_create_day_urls\<close>, with the list built so far as accumulator:
  the URL of the day is joined and appended, then the date moves on by one day. It ends
  because a date cannot pass 9999-12-31: the step either moves the date forward or
  raises.
\<close>

function create_day_urls_loop ::
  "('c, 'z) env_scheme \<Rightarrow> datetime \<Rightarrow> datetime \<Rightarrow> str list \<Rightarrow> error + str list" where
  "create_day_urls_loop env start_date end_date day_urls =
     (if dt_le start_date end_date then
        (case urljoin env BASE_CLOUD_URL (Some (strftime_Ymd env start_date @ ascii ''/'')) of
           Inl err \<Rightarrow> Inl err
         | Inr day_url \<Rightarrow>
             (case add_day start_date of
                Inl err \<Rightarrow> Inl err
              | Inr next_date \<Rightarrow>
                  create_day_urls_loop env next_date end_date (day_urls @ [day_url])))
      else Inr day_urls)"
  by pat_completeness auto
termination
proof (relation "measures [\<lambda>(env, s, e, us). 9999 - year s, \<lambda>(env, s, e, us). 12 - month s,
                          \<lambda>(env, s, e, us). 31 - day s]")
  show "wf (measures [\<lambda>(env::('c, 'z) env_scheme, s, e::datetime, us::str list). 9999 - year s,
                      \<lambda>(env, s, e, us). 12 - month s, \<lambda>(env, s, e, us). 31 - day s])"
    by simp
next
  fix env :: "('c, 'z) env_scheme" and start_date end_date :: datetime
    and day_urls :: "str list" and day_url :: str and next_date :: datetime
  assume "add_day start_date = Inr next_date"
  moreover have "days_in_month (year start_date) (month start_date) \<le> 31"
    by (simp add: days_in_month_def)
  ultimately show
    "((env, next_date, end_date, day_urls @ [day_url]), (env, start_date, end_date, day_urls))
     \<in> measures [\<lambda>(env, s, e, us). 9999 - year s, \<lambda>(env, s, e, us). 12 - month s,
                  \<lambda>(env, s, e, us). 31 - day s]"
    by (auto simp: add_day_def split: if_splits)
qed

declare create_day_urls_loop.simps [simp del]

definition create_day_urls ::
  "('c, 'z) env_scheme \<Rightarrow> datetime \<Rightarrow> datetime \<Rightarrow> error + str list" where
  "create_day_urls env start_date end_date = create_day_urls_loop env start_date end_date []"

subsection \<open>\<open>_parse_datetime_from_file_name\<close>\<close>

text \<open>
  The pattern \<open>_file_re\<close> is a sequence of literal pieces and named groups of a fixed
  number of digits, closed by \<open>$\<close>. Nothing in it can match in two ways, so matching is
  one pass from the left, as \<open>re.match\<close> does from the start of the string.
\<close>

datatype re_item = Lit str | Digits string nat

definition file_re :: "re_item list" where
  "file_re =
     [Lit (ascii ''ECOSTRESS_L2_CLOUD_''), Digits ''orbit'' 5, Lit (ascii ''_''),
      Digits ''scene_id'' 3, Lit (ascii ''_''), Digits ''year'' 4, Digits ''month'' 2,
      Digits ''day'' 2, Lit (ascii ''T''), Digits ''hour'' 2, Digits ''minute'' 2,
      Digits ''second'' 2, Lit (ascii ''_''), Digits ''build_id'' 4, Lit (ascii ''_''),
      Digits ''version'' 2, Lit (ascii ''.h5'')]"

text \<open>
  The pattern is a \<open>str\<close> pattern compiled without \<open>re.ASCII\<close>, so \<open>\d\<close> matches every
  Unicode decimal digit, and \<open>int\<close> reads every one of them with its decimal value.
\<close>

definition decimal :: "('c, 'z) env_scheme \<Rightarrow> nat \<Rightarrow> nat option" where
  "decimal env c = (if 48 \<le> c \<and> c \<le> 57 then Some (c - 48) else wide_decimal env c)"

definition is_digit :: "('c, 'z) env_scheme \<Rightarrow> nat \<Rightarrow> bool" where
  "is_digit env c = (decimal env c \<noteq> None)"

fun match_items ::
  "('c, 'z) env_scheme \<Rightarrow> re_item list \<Rightarrow> str \<Rightarrow> ((string \<times> str) list \<times> str) option" where
  "match_items env [] s = Some ([], s)"
| "match_items env (Lit l # items) s =
     (if take (length l) s = l then match_items env items (drop (length l) s) else None)"
| "match_items env (Digits name n # items) s =
     (if n \<le> length s \<and> list_all (is_digit env) (take n s) then
        (case match_items env items (drop n s) of
           None \<Rightarrow> None
         | Some (groups, rest) \<Rightarrow> Some ((name, take n s) # groups, rest))
      else None)"

text \<open>
  Without the \<open>MULTILINE\<close> flag, \<open>$\<close> matches at the end of the string and also just
  before a newline that ends the string.
\<close>

definition at_dollar :: "str \<Rightarrow> bool" where
  "at_dollar rest = (rest = [] \<or> rest = [10])"

definition re_match ::
  "('c, 'z) env_scheme \<Rightarrow> re_item list \<Rightarrow> str \<Rightarrow> (string \<times> str) list option" where
  "re_match env items s =
     (case match_items env items s of
        None \<Rightarrow> None
      | Some (groups, rest) \<Rightarrow> if at_dollar rest then Some groups else None)"

text \<open>\<open>int\<close> on a group of the match, which holds decimal digits only.\<close>

definition int_of_digits :: "('c, 'z) env_scheme \<Rightarrow> str \<Rightarrow> nat" where
  "int_of_digits env s =
     foldl (\<lambda>acc c. 10 * acc + (case decimal env c of None \<Rightarrow> 0 | Some v \<Rightarrow> v)) 0 s"

text \<open>
  \<open>re.match\<close> raises \<open>TypeError\<close> when the file name is \<open>None\<close> (an anchor without
  \<open>href\<close>). A lookup in the group dictionary raises \<open>KeyError\<close> on a missing name, and
  the \<open>datetime\<close> constructor raises \<open>ValueError\<close>; nothing here catches either.
\<close>

definition parse_datetime_from_file_name ::
  "('c, 'z) env_scheme \<Rightarrow> str option \<Rightarrow> error + datetime option" where
  "parse_datetime_from_file_name env file_name =
     (case file_name of
        None \<Rightarrow> Inl TypeError
      | Some name \<Rightarrow>
          (case re_match env file_re name of
             None \<Rightarrow> Inr None
           | Some groups \<Rightarrow>
               (case (map_of groups ''year'', map_of groups ''month'', map_of groups ''day'',
                      map_of groups ''hour'', map_of groups ''minute'', map_of groups ''second'') of
                  (Some y, Some m, Some d, Some h, Some mi, Some s) \<Rightarrow>
                    (case mk_datetime (int_of_digits env y) (int_of_digits env m)
                            (int_of_digits env d) (int_of_digits env h) (int_of_digits env mi)
                            (int_of_digits env s) of
                       Inl err \<Rightarrow> Inl err
                     | Inr file_date \<Rightarrow> Inr (Some file_date))
                | _ \<Rightarrow> Inl KeyError)))"

subsection \<open>Paths\<close>

text \<open>\<open>os.path.basename\<close> and \<open>os.path.join\<close> of two components, as \<open>posixpath\<close> has them.\<close>

definition basename :: "str \<Rightarrow> str" where
  "basename p = rev (takeWhile (\<lambda>c. [c] \<noteq> ascii ''/'') (rev p))"

definition path_join :: "str \<Rightarrow> str \<Rightarrow> str" where
  "path_join a b =
     (if take 1 b = ascii ''/'' then b
      else if a = [] \<or> take 1 (rev a) = ascii ''/'' then a @ b
      else a @ ascii ''/'' @ b)"

subsection \<open>\<open>retrieve_links\<close>\<close>

definition retrieve_links ::
  "('c, 'z) env_scheme \<Rightarrow> str \<Rightarrow> world \<Rightarrow> (error + str option list) \<times> world" where
  "retrieve_links env url w = (anchors env url, w\<lparr>requests := requests w @ [Get url]\<rparr>)"

subsection \<open>\<open>_download\<close>\<close>

text \<open>
  The loop \<open>while True: chunk = response.read(); ...\<close> with the bytes written so far.
  It runs for as long as the reads return non-empty chunks, so it is a partial function:
  \<open>None\<close> is the run that never ends. A read that raises leaves what was written.
\<close>

partial_function (option) read_loop ::
  "(nat \<Rightarrow> error + bytes) \<Rightarrow> nat \<Rightarrow> bytes \<Rightarrow> ((error + unit) \<times> bytes) option" where
  "read_loop response i written =
     (case response i of
        Inl err \<Rightarrow> Some (Inl err, written)
      | Inr chunk \<Rightarrow>
          if chunk \<noteq> [] then read_loop response (Suc i) (written @ chunk)
          else Some (Inr (), written))"

declare read_loop.simps [code]

text \<open>
  \<open>_download(query)\<close>, named \<open>download_query\<close> here since \<open>download\<close> is the public
  method. An existing destination returns at once; otherwise the link is opened and the
  file is created and filled by the loop. Opening the destination for writing is taken
  to succeed; a failure to open the link leaves the disk as it was.
\<close>

definition download_query ::
  "('c, 'z) env_scheme \<Rightarrow> str \<times> str \<Rightarrow> world \<Rightarrow> ((error + unit) \<times> world) option" where
  "download_query env query w =
     (let link = fst query; dest = snd query in
      if files w dest \<noteq> None then Some (Inr (), w)
      else
        (case urlopen env link of
           Inl err \<Rightarrow> Some (Inl err, w\<lparr>requests := requests w @ [Open link]\<rparr>)
         | Inr response \<Rightarrow>
             (case read_loop response 0 [] of
                None \<Rightarrow> None
              | Some (outcome, written) \<Rightarrow>
                  Some (outcome, w\<lparr>files := (files w)(dest \<mapsto> written),
                                   requests := requests w @ [Open link]\<rparr>))))"

subsection \<open>\<open>_parse_bbox_from_xml\<close> and \<open>_overlaps_bbox\<close>\<close>

datatype 'c polygon = Polygon "('c \<times> 'c) list"

fun descendants :: "xml \<Rightarrow> xml list" where
  "descendants (Element t x cs) = concat (map (\<lambda>c. c # descendants c) cs)"

text \<open>
  \<open>root.find('.//BoundingRectangle')\<close> is the first element below the root with that
  tag, in document order; \<open>rect.find(name)\<close> is the first child with the tag.
\<close>

definition find_below :: "str \<Rightarrow> xml \<Rightarrow> xml option" where
  "find_below name xml_root = List.find (\<lambda>el. tag el = name) (descendants xml_root)"

definition find_child :: "str \<Rightarrow> xml \<Rightarrow> xml option" where
  "find_child name el = List.find (\<lambda>c. tag c = name) (children el)"

text \<open>
  \<open>float(rect.find(name).text)\<close>: \<open>AttributeError\<close> when there is no such child,
  \<open>TypeError\<close> when the child has no text, and whatever \<open>float\<close> raises.
\<close>

definition coordinate :: "('c, 'z) env_scheme \<Rightarrow> xml option \<Rightarrow> str \<Rightarrow> error + 'c" where
  "coordinate env bounding_rect name =
     (case bounding_rect of
        None \<Rightarrow> Inl AttributeError
      | Some rect \<Rightarrow>
          (case find_child name rect of
             None \<Rightarrow> Inl AttributeError
           | Some el \<Rightarrow>
               (case text_of el of
                  None \<Rightarrow> Inl TypeError
                | Some txt \<Rightarrow> to_float env txt)))"

text \<open>
  When the cache file is missing, line 94 calls \<open>self.download\<close> with the single argument
  \<open>(xml_url, file_path)\<close>. \<open>download\<close> takes four arguments, so Python raises
  \<open>TypeError\<close> before its body runs: nothing is fetched and nothing is written.
\<close>

definition parse_bbox_from_xml ::
  "('c, 'z) env_scheme \<Rightarrow> str \<Rightarrow> world \<Rightarrow> error + 'c polygon" where
  "parse_bbox_from_xml env xml_url w =
     (let filename = basename xml_url;
          file_path = path_join (xml_dir env) filename
      in case files w file_path of
           None \<Rightarrow> Inl TypeError
         | Some content \<Rightarrow>
             (case fromstring env content of
                Inl err \<Rightarrow> Inl err
              | Inr xml_root \<Rightarrow>
                  (let bounding_rect = find_below (ascii ''BoundingRectangle'') xml_root in
                   case coordinate env bounding_rect (ascii ''WestBoundingCoordinate'') of
                     Inl err \<Rightarrow> Inl err
                   | Inr west \<Rightarrow>
                   (case coordinate env bounding_rect (ascii ''NorthBoundingCoordinate'') of
                     Inl err \<Rightarrow> Inl err
                   | Inr north \<Rightarrow>
                   (case coordinate env bounding_rect (ascii ''EastBoundingCoordinate'') of
                     Inl err \<Rightarrow> Inl err
                   | Inr east \<Rightarrow>
                   (case coordinate env bounding_rect (ascii ''SouthBoundingCoordinate'') of
                     Inl err \<Rightarrow> Inl err
                   | Inr south \<Rightarrow>
                       Inr (Polygon [(west, north), (east, north), (east, south),
                                     (west, south)])))))))"

text \<open>
  Modelled from the spec: \<open>Polygon.intersects\<close> of the shapely library, which is not part
  of this repository. Section 4.2 of the spec: each box is a closed rectangular region,
  and two boxes intersect when the regions share a point. The region of a polygon built
  from the corners of an axis-aligned box is the rectangle spanned by the corners.
\<close>

fun bounds :: "('c::linorder \<times> 'c) list \<Rightarrow> ('c \<times> 'c \<times> 'c \<times> 'c) option" where
  "bounds [] = None"
| "bounds ((x, y) # ps) =
     Some (fold (\<lambda>(px, py) (x0, y0, x1, y1). (min px x0, min py y0, max px x1, max py y1))
             ps (x, y, x, y))"

definition in_region :: "'c::linorder \<times> 'c \<Rightarrow> 'c polygon \<Rightarrow> bool" where
  "in_region pt p =
     (case p of Polygon ps \<Rightarrow>
        (case bounds ps of
           None \<Rightarrow> False
         | Some (x0, y0, x1, y1) \<Rightarrow>
             x0 \<le> fst pt \<and> fst pt \<le> x1 \<and> y0 \<le> snd pt \<and> snd pt \<le> y1))"

definition intersects :: "'c::linorder polygon \<Rightarrow> 'c polygon \<Rightarrow> bool" where
  "intersects p q =
     (case (p, q) of (Polygon ps, Polygon qs) \<Rightarrow>
        (case (bounds ps, bounds qs) of
           (Some (ax0, ay0, ax1, ay1), Some (bx0, by0, bx1, by1)) \<Rightarrow>
             ax0 \<le> bx1 \<and> bx0 \<le> ax1 \<and> ay0 \<le> by1 \<and> by0 \<le> ay1
         | _ \<Rightarrow> False))"

text \<open>
  The polygon \<open>_overlaps_bbox\<close> builds from \<open>[min_lon, min_lat, max_lon, max_lat]\<close>; an
  index past the end of the list raises \<open>IndexError\<close>.
\<close>

definition target_polygon :: "'c list \<Rightarrow> error + 'c polygon" where
  "target_polygon target_bbox =
     (if length target_bbox < 4 then Inl IndexError
      else
        (let min_lon = target_bbox ! 0; min_lat = target_bbox ! 1;
             max_lon = target_bbox ! 2; max_lat = target_bbox ! 3
         in Inr (Polygon [(min_lon, max_lat), (max_lon, max_lat), (max_lon, min_lat),
                          (min_lon, min_lat)])))"

definition overlaps_bbox ::
  "('c::linorder, 'z) env_scheme \<Rightarrow> 'c list \<Rightarrow> str \<Rightarrow> world \<Rightarrow> error + bool" where
  "overlaps_bbox env target_bbox xml_url w =
     (case target_polygon target_bbox of
        Inl err \<Rightarrow> Inl err
      | Inr target \<Rightarrow>
          (case parse_bbox_from_xml env xml_url w of
             Inl err \<Rightarrow> Inl err
           | Inr file_bbox \<Rightarrow> Inr (intersects file_bbox target)))"

subsection \<open>\<open>download\<close>\<close>

text \<open>
  The condition of line 142, with Python's left-to-right \<open>and\<close>: the spatial test runs
  only for a file date that is present and inside the window.
\<close>

definition keep_link ::
  "('c::linorder, 'z) env_scheme \<Rightarrow> datetime \<Rightarrow> datetime \<Rightarrow> 'c list \<Rightarrow> str \<Rightarrow>
   datetime option \<Rightarrow> world \<Rightarrow> error + bool" where
  "keep_link env start_date end_date bbox link file_date w =
     (case file_date of
        None \<Rightarrow> Inr False
      | Some t \<Rightarrow>
          if dt_le start_date t then
            (if dt_le t end_date then overlaps_bbox env bbox (link @ ascii ''.xml'') w
             else Inr False)
          else Inr False)"

text \<open>The inner loop over the links of one listing page; it reads the world only.\<close>

fun select_links ::
  "('c::linorder, 'z) env_scheme \<Rightarrow> datetime \<Rightarrow> datetime \<Rightarrow> 'c list \<Rightarrow> str \<Rightarrow>
   str option list \<Rightarrow> str list \<Rightarrow> world \<Rightarrow> error + str list" where
  "select_links env start_date end_date bbox day_url [] file_links w = Inr file_links"
| "select_links env start_date end_date bbox day_url (file_url # rest) file_links w =
     (case urljoin env day_url file_url of
        Inl err \<Rightarrow> Inl err
      | Inr link \<Rightarrow>
          (case parse_datetime_from_file_name env file_url of
             Inl err \<Rightarrow> Inl err
           | Inr file_date \<Rightarrow>
               (case keep_link env start_date end_date bbox link file_date w of
                  Inl err \<Rightarrow> Inl err
                | Inr keep \<Rightarrow>
                    select_links env start_date end_date bbox day_url rest
                      (if keep then file_links @ [link] else file_links) w)))"

text \<open>The outer loop over the day URLs.\<close>

fun select_days ::
  "('c::linorder, 'z) env_scheme \<Rightarrow> datetime \<Rightarrow> datetime \<Rightarrow> 'c list \<Rightarrow> str list \<Rightarrow>
   str list \<Rightarrow> world \<Rightarrow> (error + str list) \<times> world" where
  "select_days env start_date end_date bbox [] file_links w = (Inr file_links, w)"
| "select_days env start_date end_date bbox (day_url # rest) file_links w =
     (case retrieve_links env day_url w of
        (Inl err, w') \<Rightarrow> (Inl err, w')
      | (Inr file_urls, w') \<Rightarrow>
          (case select_links env start_date end_date bbox day_url file_urls file_links w' of
             Inl err \<Rightarrow> (Inl err, w')
           | Inr file_links' \<Rightarrow> select_days env start_date end_date bbox rest file_links' w'))"

text \<open>The last loop: one \<open>_download\<close> per request, stopping at the first that raises.\<close>

fun download_requests ::
  "('c, 'z) env_scheme \<Rightarrow> (str \<times> str) list \<Rightarrow> world \<Rightarrow> ((error + unit) \<times> world) option" where
  "download_requests env [] w = Some (Inr (), w)"
| "download_requests env (request # rest) w =
     (case download_query env request w of
        None \<Rightarrow> None
      | Some (Inl err, w') \<Rightarrow> Some (Inl err, w')
      | Some (Inr u, w') \<Rightarrow> download_requests env rest w')"

definition file_requests :: "str \<Rightarrow> str list \<Rightarrow> (str \<times> str) list" where
  "file_requests output_dir file_links =
     map (\<lambda>link. (link, path_join output_dir (basename link))) file_links"

definition download ::
  "('c::linorder, 'z) env_scheme \<Rightarrow> datetime \<Rightarrow> datetime \<Rightarrow> 'c list \<Rightarrow> str \<Rightarrow> world \<Rightarrow>
   ((error + unit) \<times> world) option" where
  "download env start_date end_date bbox output_dir w =
     (case create_day_urls env start_date end_date of
        Inl err \<Rightarrow> Some (Inl err, w)
      | Inr day_urls \<Rightarrow>
          (case select_days env start_date end_date bbox day_urls [] w of
             (Inl err, w') \<Rightarrow> Some (Inl err, w')
           | (Inr file_links, w') \<Rightarrow>
               download_requests env (file_requests output_dir file_links) w'))"

subsection \<open>The setup of the unit tests\<close>

text \<open>
  The mocks of tests/test_api.py as one environment: the two listing pages of
  \<open>test_download\<close>, the response of three reads, the metadata document of
  \<open>test_parse_bbox_from_xml\<close>. Here \<open>urljoin\<close> is concatenation, which is what the library
  does for a base ending in a slash and a reference of one plain segment; on the
  reference \<open>//[\<close>, an IPv6 host that is not closed, it raises as the library does. And
  \<open>float\<close> reads a plain decimal numeral as the rational it denotes. Of the decimal digits
  outside ASCII the setup knows the Arabic-Indic ones, U+0660 to U+0669.
\<close>

definition test_urljoin :: "str \<Rightarrow> str option \<Rightarrow> error + str" where
  "test_urljoin base url =
     (case url of
        None \<Rightarrow> Inr base
      | Some u \<Rightarrow> if u = ascii ''//['' then Inl ValueError else Inr (base @ u))"

definition test_anchors :: "str \<Rightarrow> error + str option list" where
  "test_anchors url =
     (if url = BASE_CLOUD_URL @ ascii ''2022.01.05/'' then
        Inr [Some (ascii ''ECOSTRESS_L2_CLOUD_19843_018_20220105T013409_0601_01.h5''),
             Some (ascii ''ECOSTRESS_L2_CLOUD_19850_014_20220105T122719_0601_01.h5'')]
      else if url = BASE_CLOUD_URL @ ascii ''2022.01.06/'' then
        Inr [Some (ascii ''ECOSTRESS_L2_CLOUD_19858_016_20220106T004717_0601_01.h5''),
             Some (ascii ''ECOSTRESS_L2_CLOUD_19872_026_20220106T230842_0601_01.h5'')]
      else Inr [])"

definition test_response :: "nat \<Rightarrow> error + bytes" where
  "test_response i =
     Inr (if i = 0 then ''data_chunk1'' else if i = 1 then ''data_chunk2'' else [])"

definition test_xml :: xml where
  "test_xml =
     Element (ascii ''GranuleMetaDataFile'') None
       [Element (ascii ''GranuleURMetaData'') None
          [Element (ascii ''SpatialDomainContainer'') None
             [Element (ascii ''HorizontalSpatialDomainContainer'') None
                [Element (ascii ''BoundingRectangle'') None
                   [Element (ascii ''WestBoundingCoordinate'') (Some (ascii ''-122.778572'')) [],
                    Element (ascii ''NorthBoundingCoordinate'') (Some (ascii ''38.030651'')) [],
                    Element (ascii ''EastBoundingCoordinate'') (Some (ascii ''-117.125183'')) [],
                    Element (ascii ''SouthBoundingCoordinate'') (Some (ascii ''32.858040'')) []]]]]]"

definition ascii_digits :: "str \<Rightarrow> bool" where
  "ascii_digits s = list_all (\<lambda>c. 48 \<le> c \<and> c \<le> 57) s"

definition ascii_number :: "str \<Rightarrow> nat" where
  "ascii_number s = foldl (\<lambda>acc c. 10 * acc + (c - 48)) 0 s"

definition test_float :: "str \<Rightarrow> error + rat" where
  "test_float s =
     (let neg = (take 1 s = ascii ''-'');
          body = (if neg then drop 1 s else s);
          ip = takeWhile (\<lambda>c. 48 \<le> c \<and> c \<le> 57) body;
          rest = dropWhile (\<lambda>c. 48 \<le> c \<and> c \<le> 57) body;
          fp = drop 1 rest
      in if ip \<noteq> [] \<and> (rest = [] \<or> (take 1 rest = ascii ''.'' \<and> ascii_digits fp)) then
           Inr ((if neg then - 1 else 1) *
                (of_nat (ascii_number ip) + of_nat (ascii_number fp) / 10 ^ length fp))
         else Inl ValueError)"

definition test_wide_decimal :: "nat \<Rightarrow> nat option" where
  "test_wide_decimal c = (if 1632 \<le> c \<and> c \<le> 1641 then Some (c - 1632) else None)"

definition test_env :: "rat env" where
  "test_env =
     \<lparr>urljoin = test_urljoin, anchors = test_anchors,
      urlopen = (\<lambda>url. Inr test_response), xml_dir = ascii ''xml_dir'',
      fromstring = (\<lambda>content. if content = ''granule'' then Inr test_xml else Inl ParseError),
      to_float = test_float, wide_decimal = test_wide_decimal, year_text = pad4\<rparr>"

text \<open>\<open>datetime(y, m, d, h)\<close> and \<open>datetime(y, m, d)\<close> as the tests write them.\<close>

definition datetime4 :: "nat \<Rightarrow> nat \<Rightarrow> nat \<Rightarrow> nat \<Rightarrow> datetime" where
  "datetime4 y m d h =
     \<lparr>year = y, month = m, day = d, hour = h, minute = 0, second = 0, microsecond = 0\<rparr>"

definition datetime3 :: "nat \<Rightarrow> nat \<Rightarrow> nat \<Rightarrow> datetime" where
  "datetime3 y m d = datetime4 y m d 0"

text \<open>A world with nothing on disk, and one where \<open>data.txt\<close> is already there.\<close>

definition empty_world :: world where
  "empty_world = \<lparr>files = Map.empty, requests = []\<rparr>"

definition world_with_data :: world where
  "world_with_data = \<lparr>files = [ascii ''data.txt'' \<mapsto> ''old''], requests = []\<rparr>"

text \<open>
  The same world with two metadata documents in the cache: the one of
  \<open>test_parse_bbox_from_xml\<close> and the one of the second file of the first listing page.
\<close>

definition world_with_metadata :: world where
  "world_with_metadata =
     \<lparr>files =
        [ascii ''xml_dir/xml_data.xml'' \<mapsto> ''granule'',
         ascii ''xml_dir/ECOSTRESS_L2_CLOUD_19850_014_20220105T122719_0601_01.h5.xml''
           \<mapsto> ''granule''],
      requests = []\<rparr>"


subsection \<open>Notions the statements use\<close>

text \<open>
  A file name is in the window when it yields a timestamp \<open>t\<close> with
  \<open>start \<le> t \<le> end\<close>, compared field by field down to the microsecond.
\<close>

definition in_window ::
  "('c, 'z) env_scheme \<Rightarrow> datetime \<Rightarrow> datetime \<Rightarrow> str option \<Rightarrow> bool" where
  "in_window env start_date end_date file_url =
     (case parse_datetime_from_file_name env file_url of
        Inr (Some t) \<Rightarrow> dt_key start_date \<le> dt_key t \<and> dt_key t \<le> dt_key end_date
      | _ \<Rightarrow> False)"


text \<open>
  The calendar date and the time of day of a \<open>datetime\<close>, and the list of \<open>n\<close>
  consecutive calendar days that starts at a given day.
\<close>

definition date_key :: "datetime \<Rightarrow> nat \<times> nat \<times> nat" where
  "date_key d = (year d, month d, day d)"

definition tod_key :: "datetime \<Rightarrow> nat \<times> nat \<times> nat \<times> nat" where
  "tod_key d = (hour d, minute d, second d, microsecond d)"

fun days_from :: "datetime \<Rightarrow> nat \<Rightarrow> datetime list" where
  "days_from d 0 = []"
| "days_from d (Suc n) = d # (case add_day d of Inl err \<Rightarrow> [] | Inr d' \<Rightarrow> days_from d' n)"







text \<open>The polygon of the box \<open>[min_lon, min_lat, max_lon, max_lat]\<close>.\<close>

abbreviation box :: "'c \<Rightarrow> 'c \<Rightarrow> 'c \<Rightarrow> 'c \<Rightarrow> 'c polygon" where
  "box min_lon min_lat max_lon max_lat \<equiv>
     Polygon [(min_lon, max_lat), (max_lon, max_lat), (max_lon, min_lat), (min_lon, min_lat)]"

text \<open>Unfolding sets for evaluating the model on the test setup.\<close>

lemmas day_defs = create_day_urls_def create_day_urls_loop.simps dt_le_def dt_key_def
  datetime3_def datetime4_def add_day_def days_in_month_def is_leap_def strftime_Ymd_def
  pad2_def pad4_def digit_char_def valid_datetime_def date_key_def tod_key_def ascii_def
  test_env_def test_urljoin_def BASE_CLOUD_URL_def

lemmas parse_defs = parse_datetime_from_file_name_def re_match_def file_re_def at_dollar_def
  is_digit_def decimal_def int_of_digits_def mk_datetime_def valid_datetime_def
  days_in_month_def is_leap_def ascii_def test_env_def test_wide_decimal_def

lemmas bbox_defs = overlaps_bbox_def target_polygon_def parse_bbox_from_xml_def basename_def
  path_join_def find_below_def find_child_def coordinate_def intersects_def
  test_env_def test_xml_def test_float_def ascii_digits_def ascii_number_def ascii_def

section \<open>Properties\<close>

subsection \<open>The read loop\<close>

lemma read_loop_chunks:
  "(\<forall>i<length chunks. response (k + i) = Inr (chunks ! i)) \<Longrightarrow> (\<forall>c\<in>set chunks. c \<noteq> []) \<Longrightarrow>
   response (k + length chunks) = Inr [] \<Longrightarrow>
   read_loop response k written = Some (Inr (), written @ concat chunks)"
proof (induction chunks arbitrary: k written)
  case Nil
  then show ?case by (subst read_loop.simps) simp
next
  case (Cons c cs)
  from Cons.prems(1) have h0: "response k = Inr c" by force
  from Cons.prems(1) have hs: "\<forall>i<length cs. response (Suc k + i) = Inr (cs ! i)" by force
  from Cons.prems(2) have ne: "c \<noteq> []" and nes: "\<forall>c\<in>set cs. c \<noteq> []" by simp_all
  from Cons.prems(3) have e: "response (Suc k + length cs) = Inr []" by simp
  have "read_loop response k written = read_loop response (Suc k) (written @ c)"
    by (subst read_loop.simps) (simp add: h0 ne)
  also have "\<dots> = Some (Inr (), (written @ c) @ concat cs)"
    by (rule Cons.IH [OF hs nes e])
  finally show ?case by simp
qed

lemma download_query_chunks:
  assumes "files w dest = None" and "urlopen env link = Inr response"
    and "\<forall>i<length chunks. response i = Inr (chunks ! i)"
    and "\<forall>c\<in>set chunks. c \<noteq> []"
    and "response (length chunks) = Inr []"
  shows "download_query env (link, dest) w =
           Some (Inr (), w\<lparr>files := (files w)(dest \<mapsto> concat chunks),
                           requests := requests w @ [Open link]\<rparr>)"
proof -
  have "read_loop response 0 [] = Some (Inr (), [] @ concat chunks)"
    using assms(3-5) by (intro read_loop_chunks) simp_all
  then show ?thesis using assms(1,2) by (simp add: download_query_def)
qed

text \<open>
  C9. When the destination does not exist and the reads of the response return the
  non-empty chunks of a list, in order, and then an empty chunk, \<open>_download\<close> returns (the
  loop ends at the empty read) and the file at the destination holds the concatenation
  of the chunks; one request was made, for the link. With two chunks the file holds the
  first followed by the second.
\<close>

theorem download_writes_concatenated_chunks:
  "(files w dest = None \<and> urlopen env link = Inr response \<and>
    (\<forall>i<length chunks. response i = Inr (chunks ! i)) \<and> (\<forall>c\<in>set chunks. c \<noteq> []) \<and>
    response (length chunks) = Inr []
    \<longrightarrow> download_query env (link, dest) w =
          Some (Inr (), w\<lparr>files := (files w)(dest \<mapsto> concat chunks),
                          requests := requests w @ [Open link]\<rparr>)) \<and>
   (files w dest = None \<and> urlopen env link = Inr response \<and>
    response 0 = Inr chunk1 \<and> chunk1 \<noteq> [] \<and> response 1 = Inr chunk2 \<and> chunk2 \<noteq> [] \<and>
    response 2 = Inr []
    \<longrightarrow> download_query env (link, dest) w =
          Some (Inr (), w\<lparr>files := (files w)(dest \<mapsto> chunk1 @ chunk2),
                          requests := requests w @ [Open link]\<rparr>))"
proof (intro conjI impI)
  assume "files w dest = None \<and> urlopen env link = Inr response \<and>
    (\<forall>i<length chunks. response i = Inr (chunks ! i)) \<and> (\<forall>c\<in>set chunks. c \<noteq> []) \<and>
    response (length chunks) = Inr []"
  then show "download_query env (link, dest) w =
          Some (Inr (), w\<lparr>files := (files w)(dest \<mapsto> concat chunks),
                          requests := requests w @ [Open link]\<rparr>)"
    by (intro download_query_chunks [of w dest env link response chunks]) simp_all
next
  assume a: "files w dest = None \<and> urlopen env link = Inr response \<and>
    response 0 = Inr chunk1 \<and> chunk1 \<noteq> [] \<and> response 1 = Inr chunk2 \<and> chunk2 \<noteq> [] \<and>
    response 2 = Inr []"
  have "\<forall>i<length [chunk1, chunk2]. response i = Inr ([chunk1, chunk2] ! i)"
    using a by (auto simp: less_Suc_eq)
  then have "download_query env (link, dest) w =
          Some (Inr (), w\<lparr>files := (files w)(dest \<mapsto> concat [chunk1, chunk2]),
                          requests := requests w @ [Open link]\<rparr>)"
    using a
    by (intro download_query_chunks [of w dest env link response "[chunk1, chunk2]"])
       (simp_all add: numeral_2_eq_2)
  then show "download_query env (link, dest) w =
          Some (Inr (), w\<lparr>files := (files w)(dest \<mapsto> chunk1 @ chunk2),
                          requests := requests w @ [Open link]\<rparr>)"
    by simp
qed

theorem download_writes_concatenated_chunks_witness:
  "files empty_world (ascii ''data.txt'') = None \<and>
   urlopen test_env (ascii ''https://example.com/data.txt'') = Inr test_response \<and>
   test_response 0 = Inr ''data_chunk1'' \<and> test_response 1 = Inr ''data_chunk2'' \<and>
   test_response 2 = Inr [] \<and>
   download_query test_env (ascii ''https://example.com/data.txt'', ascii ''data.txt'') empty_world =
     Some (Inr (), \<lparr>files = [ascii ''data.txt'' \<mapsto> ''data_chunk1data_chunk2''],
                    requests = [Open (ascii ''https://example.com/data.txt'')]\<rparr>)"
  using download_writes_concatenated_chunks
    [of empty_world "ascii ''data.txt''" test_env "ascii ''https://example.com/data.txt''" test_response
        "[''data_chunk1'', ''data_chunk2'']" "''data_chunk1''" "''data_chunk2''"]
  by (simp add: empty_world_def test_env_def test_response_def less_Suc_eq)

subsection \<open>Skipping what is already there\<close>

text \<open>
  C8. When the destination of a download task already exists, \<open>_download\<close> returns
  normally and leaves the world as it was: the file keeps its content and the request
  log is unchanged, so no request was made. In the loop over the tasks such a task is
  passed over and the remaining tasks run from the same world.
\<close>

theorem download_existing_is_noop:
  "files w dest = Some content \<Longrightarrow>
   download_query env (link, dest) w = Some (Inr (), w) \<and>
   download_requests env ((link, dest) # rest) w = download_requests env rest w"
  by (simp add: download_query_def)

theorem download_existing_is_noop_witness:
  "files world_with_data (ascii ''data.txt'') = Some ''old'' \<and>
   download_query test_env (ascii ''https://example.com/data.txt'', ascii ''data.txt'') world_with_data =
     Some (Inr (), world_with_data) \<and>
   download_requests test_env [(ascii ''https://example.com/data.txt'', ascii ''data.txt'')] world_with_data =
     download_requests test_env [] world_with_data"
  using download_existing_is_noop
    [of world_with_data "ascii ''data.txt''" "''old''" test_env "ascii ''https://example.com/data.txt''" "[]"]
  by (simp add: world_with_data_def)

subsection \<open>The metadata cache\<close>

text \<open>
  C4, at the input where the code departs from it. When the metadata directory holds no
  file named by the basename of the URL, \<open>_parse_bbox_from_xml\<close> raises \<open>TypeError\<close>: the
  document is neither downloaded nor parsed.
\<close>

theorem parse_bbox_missing_cache_raises:
  "files w (path_join (xml_dir env) (basename xml_url)) = None \<Longrightarrow>
   parse_bbox_from_xml env xml_url w = Inl TypeError"
  by (simp add: parse_bbox_from_xml_def)

theorem parse_bbox_missing_cache_raises_witness:
  "files empty_world (path_join (xml_dir test_env) (basename (ascii ''https://example.com/xml_data.xml'')))
     = None \<and>
   parse_bbox_from_xml test_env (ascii ''https://example.com/xml_data.xml'') empty_world = Inl TypeError"
  using parse_bbox_missing_cache_raises [of empty_world test_env "ascii ''https://example.com/xml_data.xml''"]
  by (simp add: empty_world_def)

subsection \<open>A reversed range\<close>

text \<open>
  C10. When the start date is later than the end date, \<open>_create_day_urls\<close> returns the
  empty list and \<open>download\<close> returns normally with the world as it was: no listing page
  was requested, no metadata was read, no file was opened or written.
\<close>

theorem download_reversed_range_does_nothing:
  assumes "dt_key end_date < dt_key start_date"
  shows "create_day_urls env start_date end_date = Inr [] \<and>
         download env start_date end_date bbox output_dir w = Some (Inr (), w)"
proof -
  have "\<not> dt_le start_date end_date" using assms by (simp add: dt_le_def not_le)
  then have "create_day_urls env start_date end_date = Inr []"
    by (simp add: create_day_urls_def create_day_urls_loop.simps)
  then show ?thesis by (simp add: download_def file_requests_def)
qed

theorem download_reversed_range_does_nothing_witness:
  "dt_key (datetime3 2022 1 29) < dt_key (datetime3 2022 2 2) \<and>
   create_day_urls test_env (datetime3 2022 2 2) (datetime3 2022 1 29) = Inr [] \<and>
   download test_env (datetime3 2022 2 2) (datetime3 2022 1 29) [-120, 35, -118, 36]
     (ascii ''/output/dir/'') empty_world = Some (Inr (), empty_world)"
  using download_reversed_range_does_nothing
    [of "datetime3 2022 1 29" "datetime3 2022 2 2" test_env "[-120, 35, -118, 36]"
        "ascii ''/output/dir/''" empty_world]
  by (simp add: dt_key_def datetime3_def datetime4_def)

subsection \<open>The rectangle of a metadata document\<close>

text \<open>
  C5. When the cached document parses to a tree whose first \<open>BoundingRectangle\<close> element
  has the four coordinate children and \<open>float\<close> reads their texts as west, north, east
  and south, \<open>_parse_bbox_from_xml\<close> returns the polygon with the corners (west, north),
  (east, north), (east, south), (west, south), in this order. In particular for the
  document of the unit test, whose coordinate texts are -122.778572, 38.030651,
  -117.125183 and 32.858040.
\<close>

theorem parse_bbox_corners:
  "(files w (path_join (xml_dir env) (basename xml_url)) = Some content \<and>
    fromstring env content = Inr xml_root \<and>
    find_below (ascii ''BoundingRectangle'') xml_root = Some rect \<and>
    find_child (ascii ''WestBoundingCoordinate'') rect = Some west_el \<and>
    text_of west_el = Some west_text \<and> to_float env west_text = Inr west \<and>
    find_child (ascii ''NorthBoundingCoordinate'') rect = Some north_el \<and>
    text_of north_el = Some north_text \<and> to_float env north_text = Inr north \<and>
    find_child (ascii ''EastBoundingCoordinate'') rect = Some east_el \<and>
    text_of east_el = Some east_text \<and> to_float env east_text = Inr east \<and>
    find_child (ascii ''SouthBoundingCoordinate'') rect = Some south_el \<and>
    text_of south_el = Some south_text \<and> to_float env south_text = Inr south
    \<longrightarrow> parse_bbox_from_xml env xml_url w =
          Inr (Polygon [(west, north), (east, north), (east, south), (west, south)])) \<and>
   (files w (path_join (xml_dir env) (basename xml_url)) = Some content \<and>
    fromstring env content = Inr test_xml \<and>
    to_float env (ascii ''-122.778572'') = Inr w1 \<and> to_float env (ascii ''38.030651'') = Inr n1 \<and>
    to_float env (ascii ''-117.125183'') = Inr e1 \<and> to_float env (ascii ''32.858040'') = Inr s1
    \<longrightarrow> parse_bbox_from_xml env xml_url w =
          Inr (Polygon [(w1, n1), (e1, n1), (e1, s1), (w1, s1)]))"
  by (simp add: parse_bbox_from_xml_def coordinate_def find_below_def find_child_def test_xml_def
      ascii_def)

theorem parse_bbox_corners_witness:
  "files world_with_metadata
     (path_join (xml_dir test_env) (basename (ascii ''https://example.com/xml_data.xml''))) =
     Some ''granule'' \<and>
   fromstring test_env ''granule'' = Inr test_xml \<and>
   to_float test_env (ascii ''-122.778572'') = Inr (-122.778572) \<and>
   to_float test_env (ascii ''38.030651'') = Inr 38.030651 \<and>
   to_float test_env (ascii ''-117.125183'') = Inr (-117.125183) \<and>
   to_float test_env (ascii ''32.858040'') = Inr 32.858040 \<and>
   parse_bbox_from_xml test_env (ascii ''https://example.com/xml_data.xml'') world_with_metadata =
     Inr (Polygon [(-122.778572, 38.030651), (-117.125183, 38.030651),
                   (-117.125183, 32.858040), (-122.778572, 32.858040)])"
  using parse_bbox_corners
    [of world_with_metadata test_env "ascii ''https://example.com/xml_data.xml''" "''granule''"
        test_xml "Element (ascii ''BoundingRectangle'') None
                   [Element (ascii ''WestBoundingCoordinate'') (Some (ascii ''-122.778572'')) [],
                    Element (ascii ''NorthBoundingCoordinate'') (Some (ascii ''38.030651'')) [],
                    Element (ascii ''EastBoundingCoordinate'') (Some (ascii ''-117.125183'')) [],
                    Element (ascii ''SouthBoundingCoordinate'') (Some (ascii ''32.858040'')) []]"
        "Element (ascii ''WestBoundingCoordinate'') (Some (ascii ''-122.778572'')) []" "ascii ''-122.778572''"
        "-122.778572"
        "Element (ascii ''NorthBoundingCoordinate'') (Some (ascii ''38.030651'')) []" "ascii ''38.030651''" "38.030651"
        "Element (ascii ''EastBoundingCoordinate'') (Some (ascii ''-117.125183'')) []" "ascii ''-117.125183''"
        "-117.125183"
        "Element (ascii ''SouthBoundingCoordinate'') (Some (ascii ''32.858040'')) []" "ascii ''32.858040''" "32.858040"
        "-122.778572" "38.030651" "-117.125183" "32.858040"]
  by (simp add: bbox_defs world_with_metadata_def)

subsection \<open>Intersection of boxes\<close>

lemma bounds_fold_ordered:
  "fold (\<lambda>(px, py) (x0, y0, x1, y1). (min px x0, min py y0, max px x1, max py y1)) ps (a, b, c, d)
     = (x0, y0, x1, y1) \<Longrightarrow> a \<le> c \<Longrightarrow> b \<le> d \<Longrightarrow> x0 \<le> (x1 :: 'c :: linorder) \<and> y0 \<le> (y1 :: 'c)"
proof (induction ps arbitrary: a b c d)
  case Nil
  then show ?case by simp
next
  case (Cons p ps)
  obtain px py where p: "p = (px, py)" by (cases p)
  have f: "fold (\<lambda>(px, py) (x0, y0, x1, y1). (min px x0, min py y0, max px x1, max py y1)) ps
              (min px a, min py b, max px c, max py d) = (x0, y0, x1, y1)"
    using Cons.prems(1) by (simp add: p)
  have "min px a \<le> max px c" and "min py b \<le> max py d"
    using Cons.prems(2,3) by (auto simp: min_def max_def)
  then show ?case by (rule Cons.IH [OF f])
qed

lemma bounds_ordered:
  "bounds ps = Some (x0, y0, x1, y1) \<Longrightarrow> x0 \<le> x1 \<and> y0 \<le> (y1 :: 'c :: linorder)"
  by (cases ps) (auto dest: bounds_fold_ordered)

lemma bounds_box:
  "bounds [(a, d), (c, d), (c, b), (a, b :: 'c :: linorder)] =
     Some (min a c, min b d, max a c, max b d)"
  by (auto simp: min_def max_def)

lemma intersects_iff_common_point:
  "intersects p q \<longleftrightarrow> (\<exists>pt. in_region pt p \<and> in_region pt (q :: 'c :: linorder polygon))"
proof (cases p; cases q)
  fix ps qs assume pq: "p = Polygon ps" "q = Polygon qs"
  show ?thesis
  proof (cases "bounds ps"; cases "bounds qs")
    fix A B assume ab: "bounds ps = Some A" "bounds qs = Some B"
    obtain ax0 ay0 ax1 ay1 where A: "A = (ax0, ay0, ax1, ay1)" by (cases A)
    obtain bx0 by0 bx1 by1 where B: "B = (bx0, by0, bx1, by1)" by (cases B)
    have oa: "ax0 \<le> ax1 \<and> ay0 \<le> ay1" using ab(1) A bounds_ordered by blast
    have ob: "bx0 \<le> bx1 \<and> by0 \<le> by1" using ab(2) B bounds_ordered by blast
    show ?thesis
    proof
      assume "intersects p q"
      then have h: "ax0 \<le> bx1 \<and> bx0 \<le> ax1 \<and> ay0 \<le> by1 \<and> by0 \<le> ay1"
        by (simp add: intersects_def pq ab A B)
      have "in_region (max ax0 bx0, max ay0 by0) p \<and> in_region (max ax0 bx0, max ay0 by0) q"
        using h oa ob by (simp add: in_region_def pq ab A B)
      then show "\<exists>pt. in_region pt p \<and> in_region pt q" by blast
    next
      assume "\<exists>pt. in_region pt p \<and> in_region pt q"
      then obtain x y where "in_region (x, y) p" "in_region (x, y) q" by auto
      then show "intersects p q"
        by (auto simp: intersects_def in_region_def pq ab A B intro: order_trans)
    qed
  qed (simp_all add: intersects_def in_region_def pq)
qed

text \<open>
  C6. \<open>intersects\<close> is symmetric, and it holds exactly when some point lies in both
  closed regions. The polygon \<open>_overlaps_bbox\<close> builds from a box intersects itself. Two
  boxes that share only a corner, or only an edge, intersect. A box of zero area (a
  single point) intersects every box whose region contains the point.
\<close>

theorem intersects_closed_regions:
  fixes p q :: "'c::linorder polygon"
  shows "intersects p q = intersects q p \<and>
    (intersects p q \<longleftrightarrow> (\<exists>pt. in_region pt p \<and> in_region pt q)) \<and>
    target_polygon [a, b, c, d] = Inr (box a b c d) \<and>
    intersects (box a b c d) (box a b c d) \<and>
    (x0 \<le> x1 \<and> x1 \<le> x2 \<and> y0 \<le> y1 \<and> y1 \<le> y2 \<longrightarrow>
       intersects (box x0 y0 x1 y1) (box x1 y1 x2 y2) \<and>
       intersects (box x0 y0 x1 y1) (box x1 y0 x2 y1)) \<and>
    (x0 \<le> x \<and> x \<le> x1 \<and> y0 \<le> y \<and> y \<le> y1 \<longrightarrow>
       intersects (box x y x y) (box x0 y0 x1 y1))"
proof (intro conjI impI)
  show "intersects p q = intersects q p"
    by (auto simp: intersects_iff_common_point)
  show "intersects p q \<longleftrightarrow> (\<exists>pt. in_region pt p \<and> in_region pt q)"
    by (rule intersects_iff_common_point)
  show "target_polygon [a, b, c, d] = Inr (box a b c d)"
    by (simp add: target_polygon_def)
  show "intersects (box a b c d) (box a b c d)"
    by (simp add: intersects_def bounds_box min_le_iff_disj le_max_iff_disj del: bounds.simps)
next
  assume "x0 \<le> x1 \<and> x1 \<le> x2 \<and> y0 \<le> y1 \<and> y1 \<le> y2"
  then show "intersects (box x0 y0 x1 y1) (box x1 y1 x2 y2)"
    and "intersects (box x0 y0 x1 y1) (box x1 y0 x2 y1)"
    by (auto simp: intersects_def bounds_box min_def max_def simp del: bounds.simps)
next
  assume "x0 \<le> x \<and> x \<le> x1 \<and> y0 \<le> y \<and> y \<le> y1"
  then show "intersects (box x y x y) (box x0 y0 x1 y1)"
    by (auto simp: intersects_def bounds_box min_def max_def simp del: bounds.simps)
qed

theorem intersects_closed_regions_witness:
  "(0::rat) \<le> 1 \<and> (1::rat) \<le> 2 \<and>
   intersects (box (0::rat) 0 1 1) (box 1 1 2 2) = intersects (box 1 1 2 2) (box (0::rat) 0 1 1) \<and>
   intersects (box (0::rat) 0 1 1) (box 1 1 2 2) \<and>
   intersects (box (0::rat) 0 1 1) (box 1 0 2 1) \<and>
   intersects (box (1::rat) 1 1 1) (box 0 0 2 2) \<and>
   \<not> intersects (box (0::rat) 0 1 1) (box 2 2 3 3)"
  using intersects_closed_regions
    [of "box (0::rat) 0 1 1" "box (1::rat) 1 2 2" 0 0 1 1 0 1 2 0 1 2 1 1]
  by (simp add: intersects_def)

subsection \<open>The selection pass\<close>

lemma parse_bbox_files_cong:
  "files w = files w' \<Longrightarrow> parse_bbox_from_xml env xml_url w = parse_bbox_from_xml env xml_url w'"
  by (simp add: parse_bbox_from_xml_def)

lemma overlaps_bbox_files_cong:
  "files w = files w' \<Longrightarrow> overlaps_bbox env bbox xml_url w = overlaps_bbox env bbox xml_url w'"
  by (simp add: overlaps_bbox_def parse_bbox_files_cong [of w w'] split: sum.splits)

lemma keep_link_files_cong:
  "files w = files w' \<Longrightarrow>
   keep_link env start_date end_date bbox link file_date w =
   keep_link env start_date end_date bbox link file_date w'"
  by (cases file_date) (simp_all add: keep_link_def overlaps_bbox_files_cong [of w w'])

lemma select_links_files_cong:
  "files w = files w' \<Longrightarrow>
   select_links env start_date end_date bbox day_url file_urls file_links w =
   select_links env start_date end_date bbox day_url file_urls file_links w'"
proof (induction file_urls arbitrary: file_links)
  case Nil
  then show ?case by simp
next
  case (Cons file_url rest)
  show ?case
    by (simp add: Cons.IH [OF Cons.prems]
        keep_link_files_cong [OF Cons.prems] split: sum.splits)
qed

lemma select_links_append:
  "select_links env start_date end_date bbox day_url (xs @ ys) file_links w =
     (case select_links env start_date end_date bbox day_url xs file_links w of
        Inl err \<Rightarrow> Inl err
      | Inr file_links' \<Rightarrow> select_links env start_date end_date bbox day_url ys file_links' w)"
  by (induction xs arbitrary: file_links) (simp_all split: sum.splits)

lemma select_days_append:
  "select_days env start_date end_date bbox (xs @ ys) file_links w =
     (case select_days env start_date end_date bbox xs file_links w of
        (Inl err, w') \<Rightarrow> (Inl err, w')
      | (Inr file_links', w') \<Rightarrow> select_days env start_date end_date bbox ys file_links' w')"
  by (induction xs arbitrary: file_links w) (simp_all split: sum.splits prod.splits)

lemma select_days_files:
  "select_days env start_date end_date bbox days file_links w = (r, w') \<Longrightarrow> files w' = files w"
proof (induction days arbitrary: file_links w)
  case Nil
  then show ?case by simp
next
  case (Cons d ds)
  then show ?case
    by (fastforce simp: retrieve_links_def split: sum.splits prod.splits)
qed

lemma select_days_requests:
  "select_days env start_date end_date bbox days file_links w = (Inr file_links', w') \<Longrightarrow>
   requests w' = requests w @ map Get days"
proof (induction days arbitrary: file_links w)
  case Nil
  then show ?case by simp
next
  case (Cons d ds)
  then show ?case
    by (fastforce simp: retrieve_links_def split: sum.splits prod.splits)
qed








text \<open>
  C7. Let the day list be computed, the days before some day pass without an error, and
  on that day's page let the links before some candidate pass as well. If the candidate
  is in the window and reading its metadata raises, \<open>download\<close> raises the same error.
  The world it leaves has the files it started with, and the requests made are the
  listing pages up to that day and nothing else: no later page, no file download.
\<close>

theorem metadata_failure_aborts_download:
  assumes days: "create_day_urls env start_date end_date = Inr (days_before @ day_url # days_after)"
    and before: "fst (select_days env start_date end_date bbox days_before [] w) = Inr links_before"
    and page: "anchors env day_url = Inr (urls_before @ file_url # urls_after)"
    and pre: "select_links env start_date end_date bbox day_url urls_before links_before w = Inr links"
    and link: "urljoin env day_url file_url = Inr link"
    and cand: "parse_datetime_from_file_name env file_url = Inr (Some t)"
    and window: "dt_le start_date t" "dt_le t end_date"
    and bbox: "4 \<le> length bbox"
    and fails: "parse_bbox_from_xml env (link @ ascii ''.xml'') w = Inl err"
  shows "download env start_date end_date bbox output_dir w =
           Some (Inl err, w\<lparr>requests := requests w @ map Get (days_before @ [day_url])\<rparr>)"
proof -
  obtain w1 where b: "select_days env start_date end_date bbox days_before [] w = (Inr links_before, w1)"
    using before by (cases "select_days env start_date end_date bbox days_before [] w") simp
  have f1: "files w1 = files w" using b by (rule select_days_files)
  have r1: "requests w1 = requests w @ map Get days_before" using b by (rule select_days_requests)
  define w2 where "w2 = w1\<lparr>requests := requests w1 @ [Get day_url]\<rparr>"
  have f2: "files w2 = files w" by (simp add: w2_def f1)
  have w2: "w2 = w\<lparr>requests := requests w @ map Get (days_before @ [day_url])\<rparr>"
    using f1 r1 by (simp add: w2_def)
  have ov: "overlaps_bbox env bbox (link @ ascii ''.xml'') w2 = Inl err"
    using bbox fails
    by (simp add: overlaps_bbox_def target_polygon_def Let_def
        parse_bbox_files_cong [OF f2])
  have "select_links env start_date end_date bbox day_url (file_url # urls_after) links w2 = Inl err"
    using link cand window ov by (simp add: keep_link_def)
  moreover have "select_links env start_date end_date bbox day_url urls_before links_before w2 = Inr links"
    by (simp only: select_links_files_cong [OF f2] pre)
  ultimately have
    "select_links env start_date end_date bbox day_url (urls_before @ file_url # urls_after)
       links_before w2 = Inl err"
    by (simp add: select_links_append)
  then have "select_days env start_date end_date bbox (day_url # days_after) links_before w1
      = (Inl err, w2)"
    using page by (simp add: retrieve_links_def w2_def)
  then have "select_days env start_date end_date bbox (days_before @ day_url # days_after) [] w
      = (Inl err, w2)"
    using b by (simp add: select_days_append)
  then show ?thesis using days w2 by (simp add: download_def)
qed

theorem metadata_failure_aborts_download_witness:
  "create_day_urls test_env (datetime4 2022 1 5 10) (datetime4 2022 1 6 17) =
     Inr [BASE_CLOUD_URL @ ascii ''2022.01.05/'', BASE_CLOUD_URL @ ascii ''2022.01.06/''] \<and>
   anchors test_env (BASE_CLOUD_URL @ ascii ''2022.01.05/'') =
     Inr [Some (ascii ''ECOSTRESS_L2_CLOUD_19843_018_20220105T013409_0601_01.h5''),
          Some (ascii ''ECOSTRESS_L2_CLOUD_19850_014_20220105T122719_0601_01.h5'')] \<and>
   urljoin test_env (BASE_CLOUD_URL @ ascii ''2022.01.05/'')
       (Some (ascii ''ECOSTRESS_L2_CLOUD_19850_014_20220105T122719_0601_01.h5'')) =
     Inr (BASE_CLOUD_URL @
          ascii ''2022.01.05/ECOSTRESS_L2_CLOUD_19850_014_20220105T122719_0601_01.h5'') \<and>
   parse_datetime_from_file_name test_env
       (Some (ascii ''ECOSTRESS_L2_CLOUD_19850_014_20220105T122719_0601_01.h5'')) =
     Inr (Some \<lparr>year = 2022, month = 1, day = 5, hour = 12, minute = 27, second = 19,
                 microsecond = 0\<rparr>) \<and>
   parse_bbox_from_xml test_env
       (BASE_CLOUD_URL @
        ascii ''2022.01.05/ECOSTRESS_L2_CLOUD_19850_014_20220105T122719_0601_01.h5'' @
        ascii ''.xml'')
       empty_world = Inl TypeError \<and>
   download test_env (datetime4 2022 1 5 10) (datetime4 2022 1 6 17) [-120, 35, -118, 36]
       (ascii ''/output/dir/'') empty_world =
     Some (Inl TypeError,
           \<lparr>files = Map.empty, requests = [Get (BASE_CLOUD_URL @ ascii ''2022.01.05/'')]\<rparr>)"
proof -
  let ?s = "datetime4 2022 1 5 10" and ?e = "datetime4 2022 1 6 17"
  let ?t = "\<lparr>year = 2022, month = 1, day = 5, hour = 12, minute = 27, second = 19,
              microsecond = 0\<rparr>"
  let ?d5 = "BASE_CLOUD_URL @ ascii ''2022.01.05/''"
  let ?d6 = "BASE_CLOUD_URL @ ascii ''2022.01.06/''"
  let ?f1 = "Some (ascii ''ECOSTRESS_L2_CLOUD_19843_018_20220105T013409_0601_01.h5'')"
  let ?f2 = "Some (ascii ''ECOSTRESS_L2_CLOUD_19850_014_20220105T122719_0601_01.h5'')"
  let ?l2 = "BASE_CLOUD_URL @
    ascii ''2022.01.05/ECOSTRESS_L2_CLOUD_19850_014_20220105T122719_0601_01.h5''"
  let ?bbox = "[-120, 35, -118, 36] :: rat list"
  have days: "create_day_urls test_env ?s ?e = Inr ([] @ ?d5 # [?d6])"
    by (simp add: day_defs)
  have before: "fst (select_days test_env ?s ?e ?bbox [] [] empty_world) = Inr []"
    by simp
  have page: "anchors test_env ?d5 = Inr ([?f1] @ ?f2 # [])"
    by (simp add: test_env_def test_anchors_def)
  have pre: "select_links test_env ?s ?e ?bbox ?d5 [?f1] [] empty_world = Inr []"
    by (simp add: parse_defs keep_link_def dt_le_def dt_key_def datetime4_def test_urljoin_def)
  have link: "urljoin test_env ?d5 ?f2 = Inr ?l2"
    by (simp add: test_env_def test_urljoin_def ascii_def)
  have cand: "parse_datetime_from_file_name test_env ?f2 = Inr (Some ?t)"
    by (simp add: parse_defs)
  have window: "dt_le ?s ?t" "dt_le ?t ?e"
    by (simp_all add: dt_le_def dt_key_def datetime4_def)
  have bbox: "4 \<le> length ?bbox" by simp
  have fails: "parse_bbox_from_xml test_env (?l2 @ ascii ''.xml'') empty_world = Inl TypeError"
    by (simp add: parse_bbox_from_xml_def empty_world_def)
  show ?thesis
    using metadata_failure_aborts_download
      [OF days before page pre link cand window bbox fails, of "ascii ''/output/dir/''"]
      days page link cand fails
    by (simp add: empty_world_def)
qed

subsection \<open>The days of a range\<close>

lemma dt_le_dates:
  "tod_key s \<le> tod_key e \<Longrightarrow> dt_le s e \<longleftrightarrow> date_key s \<le> date_key e"
  by (auto simp: dt_le_def dt_key_def date_key_def tod_key_def)

lemma dt_le_imp_dates: "dt_le s e \<Longrightarrow> date_key s \<le> date_key e"
  by (auto simp: dt_le_def dt_key_def date_key_def)

lemma add_day_later: "add_day d = Inr d' \<Longrightarrow> date_key d < date_key d'"
  by (auto simp: add_day_def date_key_def split: if_splits)

lemma add_day_tod: "add_day d = Inr d' \<Longrightarrow> tod_key d' = tod_key d"
  by (auto simp: add_day_def tod_key_def split: if_splits)

lemma days_in_month_bounds: "Suc 0 \<le> days_in_month y m \<and> days_in_month y m \<le> 31"
  by (simp add: days_in_month_def)

lemma add_day_valid: "valid_datetime d \<Longrightarrow> add_day d = Inr d' \<Longrightarrow> valid_datetime d'"
  by (auto simp: add_day_def valid_datetime_def days_in_month_bounds split: if_splits)

lemma add_day_defined:
  "valid_datetime d \<Longrightarrow> date_key d \<noteq> (9999, 12, 31) \<Longrightarrow> \<exists>d'. add_day d = Inr d'"
  by (auto simp: add_day_def valid_datetime_def date_key_def days_in_month_def)

lemma add_day_next:
  assumes "valid_datetime d" and "valid_datetime e" and "date_key d < date_key e"
    and "add_day d = Inr d'"
  shows "date_key d' \<le> date_key e"
proof -
  have "year d < year e \<or> (year d = year e \<and> month d < month e) \<or>
        (year d = year e \<and> month d = month e \<and> day d < day e)"
    using assms(3) by (simp add: date_key_def) arith
  then consider "year d < year e"
    | "year d = year e" "month d < month e"
    | "year d = year e" "month d = month e" "day d < day e"
    by blast
  then show ?thesis
  proof cases
    case 1
    then show ?thesis
      using assms(1,2,4)
      by (auto simp: add_day_def valid_datetime_def date_key_def split: if_splits)
  next
    case 2
    then show ?thesis
      using assms(1,2,4)
      by (auto simp: add_day_def valid_datetime_def date_key_def split: if_splits)
  next
    case 3
    then show ?thesis
      using assms(1,2,4)
      by (auto simp: add_day_def valid_datetime_def date_key_def split: if_splits)
  qed
qed

lemma days_from_unfold:
  "0 < n \<Longrightarrow>
   days_from d n = d # (case add_day d of Inl err \<Rightarrow> [] | Inr d' \<Rightarrow> days_from d' (n - 1))"
  by (cases n) (simp_all split: sum.splits)

lemma days_from_later:
  "x \<in> set (days_from d n) \<Longrightarrow> date_key d \<le> date_key x"
proof (induction n arbitrary: d)
  case 0
  then show ?case by simp
next
  case (Suc n)
  show ?case
  proof (cases "add_day d")
    case (Inl err)
    then show ?thesis using Suc.prems by simp
  next
    case (Inr d')
    then show ?thesis
      using Suc.prems Suc.IH [of d'] add_day_later [OF Inr]
      by (auto intro: order_trans less_imp_le)
  qed
qed

lemma days_from_sorted:
  "sorted_wrt (\<lambda>a b. date_key a < date_key b) (days_from d n)"
proof (induction n arbitrary: d)
  case 0
  then show ?case by simp
next
  case (Suc n)
  show ?case
  proof (cases "add_day d")
    case (Inl err)
    then show ?thesis by simp
  next
    case (Inr d')
    have "\<forall>x\<in>set (days_from d' n). date_key d < date_key x"
      using days_from_later [of _ d' n] add_day_later [OF Inr] by (auto intro: less_le_trans)
    then show ?thesis using Inr Suc.IH [of d'] by simp
  qed
qed

lemma create_day_urls_loop_days:
  assumes "valid_datetime s" and "valid_datetime e" and "date_key s \<le> date_key e"
    and "tod_key s \<le> tod_key e" and "date_key e \<noteq> (9999, 12, 31)"
    and "\<forall>d. urljoin env BASE_CLOUD_URL (Some (strftime_Ymd env d @ ascii ''/'')) = Inr (url_of d)"
  shows "\<exists>n. create_day_urls_loop env s e acc = Inr (acc @ map url_of (days_from s (Suc n))) \<and>
             length (days_from s (Suc n)) = Suc n \<and>
             date_key (last (days_from s (Suc n))) = date_key e"
  using assms
proof (induction env s e acc rule: create_day_urls_loop.induct)
  case (1 env s e acc)
  have join: "urljoin env BASE_CLOUD_URL (Some (strftime_Ymd env s @ ascii ''/'')) = Inr (url_of s)"
    using "1.prems"(6) by blast
  have le: "dt_le s e" using "1.prems" by (simp add: dt_le_dates)
  have "date_key s \<noteq> (9999, 12, 31)"
  proof
    assume m: "date_key s = (9999, 12, 31)"
    have "date_key e \<le> (9999, 12, 31)"
      using "1.prems"(2) days_in_month_bounds [of "year e" "month e"]
      by (auto simp: valid_datetime_def date_key_def)
    then show False using "1.prems"(3,5) m by simp
  qed
  then obtain s' where s': "add_day s = Inr s'" using add_day_defined "1.prems"(1) by blast
  have vs': "valid_datetime s'" using add_day_valid "1.prems"(1) s' by blast
  have ts': "tod_key s' \<le> tod_key e" using add_day_tod [OF s'] "1.prems"(4) by simp
  have step: "create_day_urls_loop env s e acc =
      create_day_urls_loop env s' e (acc @ [url_of s])"
    by (subst create_day_urls_loop.simps) (simp add: le s' join)
  show ?case
  proof (cases "date_key s = date_key e")
    case True
    then have "\<not> dt_le s' e"
      using add_day_later [OF s'] dt_le_imp_dates [of s' e] by auto
    then have "create_day_urls_loop env s' e (acc @ [url_of s]) = Inr (acc @ [url_of s])"
      by (subst create_day_urls_loop.simps) simp
    then have "create_day_urls_loop env s e acc = Inr (acc @ map url_of (days_from s (Suc 0))) \<and>
             length (days_from s (Suc 0)) = Suc 0 \<and>
             date_key (last (days_from s (Suc 0))) = date_key e"
      using step True s' by simp
    then show ?thesis by blast
  next
    case False
    then have lt: "date_key s < date_key e" using "1.prems"(3) by simp
    have nx: "date_key s' \<le> date_key e"
      using add_day_next [OF "1.prems"(1,2) lt s'] .
    from "1.IH" [OF le join s' vs' "1.prems"(2) nx ts' "1.prems"(5,6)]
    obtain n where n:
      "create_day_urls_loop env s' e (acc @ [url_of s]) =
         Inr ((acc @ [url_of s]) @ map url_of (days_from s' (Suc n)))"
      "length (days_from s' (Suc n)) = Suc n"
      "date_key (last (days_from s' (Suc n))) = date_key e"
      by blast
    have unf: "days_from s (Suc (Suc n)) = s # days_from s' (Suc n)"
      using s' by simp
    have ne: "days_from s' (Suc n) \<noteq> []" by simp
    have "create_day_urls_loop env s e acc =
            Inr (acc @ map url_of (days_from s (Suc (Suc n)))) \<and>
          length (days_from s (Suc (Suc n))) = Suc (Suc n) \<and>
          date_key (last (days_from s (Suc (Suc n)))) = date_key e"
      using step n ne by (simp add: unf del: days_from.simps)
    then show ?thesis by blast
  qed
qed


text \<open>
  C1, at an input where the code departs from it. From 2022-01-05 18:00 to
  2022-01-06 06:00 start is not after end, yet \<open>_create_day_urls\<close> returns the URL of
  2022.01.05 alone: the loop compares full timestamps, and 2022-01-06 18:00 is after the
  end. The page of the end's date is never listed, although a file of 2022-01-06
  00:47:17 is inside the window that line 142 tests.
\<close>

theorem create_day_urls_drops_end_date:
  "dt_le (datetime4 2022 1 5 18) (datetime4 2022 1 6 6) \<and>
   create_day_urls test_env (datetime4 2022 1 5 18) (datetime4 2022 1 6 6) =
     Inr [BASE_CLOUD_URL @ ascii ''2022.01.05/''] \<and>
   in_window test_env (datetime4 2022 1 5 18) (datetime4 2022 1 6 6)
     (Some (ascii ''ECOSTRESS_L2_CLOUD_19858_016_20220106T004717_0601_01.h5''))"
  by (simp add: day_defs in_window_def parse_defs)

text \<open>
  Where the code does list every day. Let start and end be valid, start not after end,
  the time of day of start not after the time of day of end, the date of end before
  9999-12-31, and let \<open>urljoin\<close> return for the day references. Then \<open>_create_day_urls\<close>
  returns the URLs of consecutive calendar days: the first is the date of start, each
  next one is the day after, the last is the date of end, so the dates increase
  strictly.
\<close>

lemma create_day_urls_covers_range:
  assumes "valid_datetime start_date" and "valid_datetime end_date"
    and "dt_le start_date end_date" and "tod_key start_date \<le> tod_key end_date"
    and "date_key end_date \<noteq> (9999, 12, 31)"
    and "\<forall>d. urljoin env BASE_CLOUD_URL (Some (strftime_Ymd env d @ ascii ''/'')) = Inr (url_of d)"
  shows "\<exists>n. create_day_urls env start_date end_date =
            Inr (map url_of (days_from start_date (Suc n))) \<and>
          length (days_from start_date (Suc n)) = Suc n \<and>
          hd (days_from start_date (Suc n)) = start_date \<and>
          date_key (last (days_from start_date (Suc n))) = date_key end_date \<and>
          sorted_wrt (\<lambda>a b. date_key a < date_key b) (days_from start_date (Suc n))"
proof -
  have "date_key start_date \<le> date_key end_date" using assms(3) by (rule dt_le_imp_dates)
  from create_day_urls_loop_days [OF assms(1,2) this assms(4,5,6), of "[]"]
  obtain n where
    "create_day_urls_loop env start_date end_date [] =
       Inr ([] @ map url_of (days_from start_date (Suc n)))"
    "length (days_from start_date (Suc n)) = Suc n"
    "date_key (last (days_from start_date (Suc n))) = date_key end_date"
    by blast
  moreover have "hd (days_from start_date (Suc n)) = start_date" by simp
  ultimately have "create_day_urls env start_date end_date =
            Inr (map url_of (days_from start_date (Suc n))) \<and>
          length (days_from start_date (Suc n)) = Suc n \<and>
          hd (days_from start_date (Suc n)) = start_date \<and>
          date_key (last (days_from start_date (Suc n))) = date_key end_date \<and>
          sorted_wrt (\<lambda>a b. date_key a < date_key b) (days_from start_date (Suc n))"
    using days_from_sorted [of start_date "Suc n"]
    by (simp add: create_day_urls_def del: days_from.simps)
  then show ?thesis by blast
qed

lemma create_day_urls_covers_range_example:
  "valid_datetime (datetime3 2022 1 29) \<and> valid_datetime (datetime3 2022 2 2) \<and>
   dt_le (datetime3 2022 1 29) (datetime3 2022 2 2) \<and>
   tod_key (datetime3 2022 1 29) \<le> tod_key (datetime3 2022 2 2) \<and>
   date_key (datetime3 2022 2 2) \<noteq> (9999, 12, 31) \<and>
   days_from (datetime3 2022 1 29) 5 =
     [datetime3 2022 1 29, datetime3 2022 1 30, datetime3 2022 1 31, datetime3 2022 2 1,
      datetime3 2022 2 2] \<and>
   create_day_urls test_env (datetime3 2022 1 29) (datetime3 2022 2 2) =
     Inr [BASE_CLOUD_URL @ ascii ''2022.01.29/'', BASE_CLOUD_URL @ ascii ''2022.01.30/'',
          BASE_CLOUD_URL @ ascii ''2022.01.31/'', BASE_CLOUD_URL @ ascii ''2022.02.01/'',
          BASE_CLOUD_URL @ ascii ''2022.02.02/'']"
proof -
  let ?url = "\<lambda>d. BASE_CLOUD_URL @ strftime_Ymd test_env d @ ascii ''/''"
  have v: "valid_datetime (datetime3 2022 1 29)" "valid_datetime (datetime3 2022 2 2)"
    "dt_le (datetime3 2022 1 29) (datetime3 2022 2 2)"
    "tod_key (datetime3 2022 1 29) \<le> tod_key (datetime3 2022 2 2)"
    "date_key (datetime3 2022 2 2) \<noteq> (9999, 12, 31)"
    by (simp_all add: day_defs)
  have j: "\<forall>d. urljoin test_env BASE_CLOUD_URL (Some (strftime_Ymd test_env d @ ascii ''/''))
      = Inr (?url d)"
    by (simp add: test_env_def test_urljoin_def strftime_Ymd_def pad2_def ascii_def)
  note T = create_day_urls_covers_range [OF v j]
  have d: "days_from (datetime3 2022 1 29) 5 =
     [datetime3 2022 1 29, datetime3 2022 1 30, datetime3 2022 1 31, datetime3 2022 2 1,
      datetime3 2022 2 2]"
    by (simp add: days_from_unfold datetime3_def datetime4_def add_day_def days_in_month_def
        is_leap_def)
  have c: "create_day_urls test_env (datetime3 2022 1 29) (datetime3 2022 2 2) =
     Inr [BASE_CLOUD_URL @ ascii ''2022.01.29/'', BASE_CLOUD_URL @ ascii ''2022.01.30/'',
          BASE_CLOUD_URL @ ascii ''2022.01.31/'', BASE_CLOUD_URL @ ascii ''2022.02.01/'',
          BASE_CLOUD_URL @ ascii ''2022.02.02/'']"
    by (simp add: day_defs)
  show ?thesis using T v d c by simp
qed

subsection \<open>The file-name parser\<close>










end
